theory Spec2Isabelle
  imports Complex_Main "HOL-Library.Word" "HOL-Library.Multiset"
begin

section \<open>Barnes-Hut simulation: data model\<close>

text \<open>
  The embedding follows \<^verbatim>\<open>functions.go\<close>. Conventions:
  \<^item> \<^verbatim>\<open>float64\<close> is modelled by \<^typ>\<open>real\<close>: rounding, overflow, signed zeros and NaN are
    outside the model. A float division whose divisor is not a literal goes through
    \<open>fdiv\<close>, which reports a zero divisor as the value \<open>DivisionByZero\<close> (in Go the
    quotient would be an infinity or NaN, which no real number represents).
  \<^item> A \<^verbatim>\<open>*Star\<close> is a record of the address of the star object and the object itself;
    the Go comparison \<^verbatim>\<open>p != q\<close> of two star pointers compares the addresses. A function
    that allocates stars (\<^verbatim>\<open>&Star{...}\<close>) takes the next free address \<open>h\<close> of the heap and
    returns the next free address after its allocations.
  \<^item> A \<^verbatim>\<open>*Node\<close> is a \<^typ>\<open>'a option\<close> of the node (\<open>None\<close> is \<^verbatim>\<open>nil\<close>); nodes are owned by
    exactly one parent, so the in-place updates of the source become returned nodes.
  \<^item> A panic of the Go runtime is a value \<open>Inl e\<close>; a call that never returns is \<open>None\<close>.
  \<^item> The declarations of \<^verbatim>\<open>datatypes.go\<close> are read off their uses in \<^verbatim>\<open>functions.go\<close>; the
    gravitational constant \<^verbatim>\<open>G\<close> declared there is a parameter \<open>G\<close> of the functions
    that use it.
\<close>

datatype error = NilPointerDereference | IndexOutOfRange | NegativeSliceLength | DivisionByZero

record OrderedPair =
  x :: real
  y :: real

record Star =
  position :: OrderedPair
  velocity :: OrderedPair
  acceleration :: OrderedPair
  mass :: real
  radius :: real
  red :: "8 word"
  green :: "8 word"
  blue :: "8 word"

record StarPtr =
  addr :: nat
  pointee :: Star

record Universe =
  width :: real
  stars :: "StarPtr list"

record Quadrant =
  x :: real
  y :: real
  width :: real

datatype Node = Node (sector: Quadrant) (star: "StarPtr option") (children: "Node option list")

record QuadTree =
  root :: "Node option"

definition fdiv :: "real \<Rightarrow> real \<Rightarrow> error + real" where
  "fdiv a b = (if b = 0 then Inl DivisionByZero else Inr (a / b))"

text \<open>The zero value of \<^verbatim>\<open>var force OrderedPair\<close> and of an omitted struct field.\<close>

definition zeroPair :: OrderedPair where
  "zeroPair = \<lparr>OrderedPair.x = 0, y = 0\<rparr>"

section \<open>Vector arithmetic\<close>

definition Distance :: "OrderedPair \<Rightarrow> OrderedPair \<Rightarrow> real \<times> real \<times> real" where
  "Distance p1 p2 =
     (let deltaX = OrderedPair.x p1 - OrderedPair.x p2;
          deltaY = OrderedPair.y p1 - OrderedPair.y p2
      in (deltaX, deltaY, sqrt (deltaX * deltaX + deltaY * deltaY)))"

section \<open>Quadtree construction\<close>

definition IsInsideUniverse :: "StarPtr \<Rightarrow> real \<Rightarrow> bool" where
  "IsInsideUniverse s w =
     (OrderedPair.x (position (pointee s)) \<ge> 0 \<and> OrderedPair.x (position (pointee s)) \<le> w \<and>
      OrderedPair.y (position (pointee s)) \<ge> 0 \<and> OrderedPair.y (position (pointee s)) \<le> w)"

definition emptyNode :: "Quadrant \<Rightarrow> Node" where
  "emptyNode q = Node q None []"

definition Subdivide :: "Node \<Rightarrow> Node" where
  "Subdivide node =
     (let half = Quadrant.width (sector node) / 2;
          qx = Quadrant.x (sector node);
          qy = Quadrant.y (sector node)
      in Node (sector node) (star node)
           [Some (emptyNode \<lparr>Quadrant.x = qx, y = qy + half, width = half\<rparr>),
            Some (emptyNode \<lparr>Quadrant.x = qx + half, y = qy + half, width = half\<rparr>),
            Some (emptyNode \<lparr>Quadrant.x = qx, y = qy, width = half\<rparr>),
            Some (emptyNode \<lparr>Quadrant.x = qx + half, y = qy, width = half\<rparr>)])"

definition FindQuadrant :: "Quadrant \<Rightarrow> StarPtr \<Rightarrow> nat" where
  "FindQuadrant sec s =
     (let midX = Quadrant.x sec + Quadrant.width sec / 2;
          midY = Quadrant.y sec + Quadrant.width sec / 2;
          sX = OrderedPair.x (position (pointee s));
          sY = OrderedPair.y (position (pointee s))
      in if sX < midX \<and> sY \<ge> midY then 0
         else if sX \<ge> midX \<and> sY \<ge> midY then 1
         else if sX < midX \<and> sY < midY then 2
         else 3)"

text \<open>\<^verbatim>\<open>node.children[idx]\<close> followed by the first field access through the result.\<close>

definition childAt :: "Node \<Rightarrow> nat \<Rightarrow> error + Node" where
  "childAt node idx =
     (if idx \<ge> length (children node) then Inl IndexOutOfRange
      else case children node ! idx of None \<Rightarrow> Inl NilPointerDereference | Some c \<Rightarrow> Inr c)"

definition setChild :: "Node \<Rightarrow> nat \<Rightarrow> Node \<Rightarrow> Node" where
  "setChild node idx c = Node (sector node) (star node) ((children node)[idx := Some c])"

text \<open>
  \<^verbatim>\<open>InsertStar\<close> has no bound on its recursion, so it is a partial function: \<open>None\<close> is a call
  that does not return. The node is updated in place in the source; here the updated node
  is returned.
\<close>

partial_function (option) InsertStar :: "Node \<Rightarrow> StarPtr \<Rightarrow> (error + Node) option" where
  "InsertStar node s =
     (if star node = None \<and> length (children node) = 0 then
        Some (Inr (Node (sector node) (Some s) (children node)))
      else if length (children node) = 0 then
        (case star node of
           None \<Rightarrow> Some (Inl NilPointerDereference)
         | Some old_star \<Rightarrow>
            (let node1 = Subdivide node;
                 node2 = Node (sector node1) None (children node1);
                 i = FindQuadrant (sector node2) old_star
             in case childAt node2 i of
                  Inl e \<Rightarrow> Some (Inl e)
                | Inr c \<Rightarrow>
                   Option.bind (InsertStar c old_star) (\<lambda>r1.
                     case r1 of
                       Inl e \<Rightarrow> Some (Inl e)
                     | Inr c' \<Rightarrow>
                        (let node3 = setChild node2 i c';
                             j = FindQuadrant (sector node3) s
                         in case childAt node3 j of
                              Inl e \<Rightarrow> Some (Inl e)
                            | Inr d \<Rightarrow>
                               Option.bind (InsertStar d s) (\<lambda>r2.
                                 case r2 of
                                   Inl e \<Rightarrow> Some (Inl e)
                                 | Inr d' \<Rightarrow> Some (Inr (setChild node3 j d')))))))
      else
        (let idx = FindQuadrant (sector node) s
         in case childAt node idx of
              Inl e \<Rightarrow> Some (Inl e)
            | Inr c \<Rightarrow>
               Option.bind (InsertStar c s) (\<lambda>r.
                 case r of
                   Inl e \<Rightarrow> Some (Inl e)
                 | Inr c' \<Rightarrow> Some (Inr (setChild node idx c')))))"

declare InsertStar.simps [code]

text \<open>
  \<^verbatim>\<open>ComputeCenterAndMass\<close> and its loop over \<^verbatim>\<open>node.children\<close>; the loop carries
  \<^verbatim>\<open>totalMass\<close>, \<^verbatim>\<open>xCm\<close> and \<^verbatim>\<open>yCm\<close>. After the recursive call the source reads
  \<^verbatim>\<open>child.star\<close>, which panics when the child is \<^verbatim>\<open>nil\<close>.
\<close>

fun ComputeCenterAndMass :: "Node option \<Rightarrow> nat \<Rightarrow> error + Node option \<times> nat"
  and ComputeCenterAndMass_loop ::
    "Node option list \<Rightarrow> real \<times> real \<times> real \<Rightarrow> nat \<Rightarrow>
       error + Node option list \<times> (real \<times> real \<times> real) \<times> nat"
where
  "ComputeCenterAndMass None h = Inr (None, h)"
| "ComputeCenterAndMass (Some (Node sec st ch)) h =
     (if length ch = 0 then Inr (Some (Node sec st ch), h)
      else case ComputeCenterAndMass_loop ch (0, 0, 0) h of
             Inl e \<Rightarrow> Inl e
           | Inr (ch', (totalMass, xCm, yCm), h') \<Rightarrow>
              if totalMass > 0 then
                (case fdiv xCm totalMass of
                   Inl e \<Rightarrow> Inl e
                 | Inr cx \<Rightarrow>
                    (case fdiv yCm totalMass of
                       Inl e \<Rightarrow> Inl e
                     | Inr cy \<Rightarrow>
                        Inr (Some (Node sec
                               (Some \<lparr>addr = h',
                                      pointee = \<lparr>position = \<lparr>OrderedPair.x = cx, y = cy\<rparr>,
                                                 velocity = zeroPair, acceleration = zeroPair,
                                                 mass = totalMass, radius = 0,
                                                 red = 0, green = 0, blue = 0\<rparr>\<rparr>)
                               ch'), Suc h')))
              else Inr (Some (Node sec st ch'), h'))"
| "ComputeCenterAndMass_loop [] acc h = Inr ([], acc, h)"
| "ComputeCenterAndMass_loop (child # rest) (totalMass, xCm, yCm) h =
     (case ComputeCenterAndMass child h of
        Inl e \<Rightarrow> Inl e
      | Inr (child', h1) \<Rightarrow>
         (case child' of
            None \<Rightarrow> Inl NilPointerDereference
          | Some c \<Rightarrow>
             (let acc' =
                (case star c of
                   None \<Rightarrow> (totalMass, xCm, yCm)
                 | Some cs \<Rightarrow>
                    (let m = mass (pointee cs)
                     in (totalMass + m,
                         xCm + m * OrderedPair.x (position (pointee cs)),
                         yCm + m * OrderedPair.y (position (pointee cs)))))
              in case ComputeCenterAndMass_loop rest acc' h1 of
                   Inl e \<Rightarrow> Inl e
                 | Inr (rest', acc'', h2) \<Rightarrow> Inr (child' # rest', acc'', h2))))"

text \<open>The loop of \<^verbatim>\<open>GenerateQuadTree\<close> over \<^verbatim>\<open>currentUniverse.stars\<close>.\<close>

fun GenerateQuadTree_loop :: "Node \<Rightarrow> StarPtr list \<Rightarrow> real \<Rightarrow> (error + Node) option" where
  "GenerateQuadTree_loop rt [] w = Some (Inr rt)"
| "GenerateQuadTree_loop rt (s # ss) w =
     (if IsInsideUniverse s w then
        Option.bind (InsertStar rt s) (\<lambda>r.
          case r of
            Inl e \<Rightarrow> Some (Inl e)
          | Inr rt' \<Rightarrow> GenerateQuadTree_loop rt' ss w)
      else GenerateQuadTree_loop rt ss w)"

definition GenerateQuadTree :: "Universe \<Rightarrow> nat \<Rightarrow> (error + QuadTree \<times> nat) option" where
  "GenerateQuadTree currentUniverse h =
     Option.bind
       (GenerateQuadTree_loop
          (emptyNode \<lparr>Quadrant.x = 0, y = 0, width = Universe.width currentUniverse\<rparr>)
          (stars currentUniverse) (Universe.width currentUniverse))
       (\<lambda>r. case r of
               Inl e \<Rightarrow> Some (Inl e)
             | Inr rt \<Rightarrow>
                (case ComputeCenterAndMass (Some rt) h of
                   Inl e \<Rightarrow> Some (Inl e)
                 | Inr (rt', h') \<Rightarrow> Some (Inr (\<lparr>root = rt'\<rparr>, h'))))"

section \<open>Force approximation\<close>

fun IsLeaf_loop :: "Node option list \<Rightarrow> bool" where
  "IsLeaf_loop [] = True"
| "IsLeaf_loop (child # rest) = (if child \<noteq> None then False else IsLeaf_loop rest)"

definition IsLeaf :: "Node \<Rightarrow> bool" where
  "IsLeaf node = IsLeaf_loop (children node)"

definition ComputeForce :: "real \<Rightarrow> StarPtr \<Rightarrow> StarPtr \<Rightarrow> error + OrderedPair" where
  "ComputeForce G b b2 =
     (case Distance (position (pointee b)) (position (pointee b2)) of
        (dX, dY, d) \<Rightarrow>
          if d = 0 then Inr zeroPair
          else case fdiv (G * mass (pointee b) * mass (pointee b2)) (d * d) of
                 Inl e \<Rightarrow> Inl e
               | Inr F \<Rightarrow>
                  (case fdiv (F * dX) d of
                     Inl e \<Rightarrow> Inl e
                   | Inr fx \<Rightarrow>
                      (case fdiv (F * dY) d of
                         Inl e \<Rightarrow> Inl e
                       | Inr fy \<Rightarrow> Inr \<lparr>OrderedPair.x = fx, y = fy\<rparr>)))"

text \<open>The branch of \<^verbatim>\<open>CalculateNetForce\<close> for a leaf that holds a star other than the target.\<close>

definition leafForce :: "real \<Rightarrow> StarPtr \<Rightarrow> StarPtr \<Rightarrow> OrderedPair \<Rightarrow> error + OrderedPair" where
  "leafForce G nodeStar currStar force =
     (case Distance (position (pointee nodeStar)) (position (pointee currStar)) of
        (dX, dY, d) \<Rightarrow>
          if d \<noteq> 0 then
            (case fdiv (G * mass (pointee currStar) * mass (pointee nodeStar)) (d * d) of
               Inl e \<Rightarrow> Inl e
             | Inr f \<Rightarrow>
                (case fdiv dX d of
                   Inl e \<Rightarrow> Inl e
                 | Inr ux \<Rightarrow>
                    (case fdiv dY d of
                       Inl e \<Rightarrow> Inl e
                     | Inr uy \<Rightarrow>
                        Inr \<lparr>OrderedPair.x = OrderedPair.x force + f * ux,
                             y = OrderedPair.y force + f * uy\<rparr>)))
          else Inr force)"

text \<open>
  The opening-angle block of \<^verbatim>\<open>CalculateNetForce\<close>: when the node is far enough it adds
  \<^verbatim>\<open>0.0\<close> to both components of the force.
\<close>

definition farCheck :: "Node \<Rightarrow> StarPtr \<Rightarrow> StarPtr \<Rightarrow> real \<Rightarrow> OrderedPair \<Rightarrow> error + OrderedPair" where
  "farCheck node nodeStar currStar theta force =
     (if addr nodeStar \<noteq> addr currStar then
        (case Distance (position (pointee nodeStar)) (position (pointee currStar)) of
           (dX, dY, d) \<Rightarrow>
             if d \<noteq> 0 then
               (let s = Quadrant.width (sector node)
                in case fdiv s d of
                     Inl e \<Rightarrow> Inl e
                   | Inr q \<Rightarrow>
                      if q < theta then
                        Inr \<lparr>OrderedPair.x = OrderedPair.x force + 0,
                             y = OrderedPair.y force + 0\<rparr>
                      else Inr force)
             else Inr force)
      else Inr force)"

fun CalculateNetForce :: "real \<Rightarrow> Node option \<Rightarrow> StarPtr \<Rightarrow> real \<Rightarrow> error + OrderedPair"
  and CalculateNetForce_loop ::
    "real \<Rightarrow> Node option list \<Rightarrow> StarPtr \<Rightarrow> real \<Rightarrow> OrderedPair \<Rightarrow> error + OrderedPair"
where
  "CalculateNetForce G None currStar theta = Inr zeroPair"
| "CalculateNetForce G (Some (Node sec st ch)) currStar theta =
     (case st of
        None \<Rightarrow> Inr zeroPair
      | Some nodeStar \<Rightarrow>
         if mass (pointee nodeStar) = 0 then Inr zeroPair
         else if IsLeaf (Node sec st ch) \<and> addr nodeStar \<noteq> addr currStar then
           leafForce G nodeStar currStar zeroPair
         else
           (case farCheck (Node sec st ch) nodeStar currStar theta zeroPair of
              Inl e \<Rightarrow> Inl e
            | Inr force \<Rightarrow> CalculateNetForce_loop G ch currStar theta force))"
| "CalculateNetForce_loop G [] currStar theta force = Inr force"
| "CalculateNetForce_loop G (None # rest) currStar theta force =
     CalculateNetForce_loop G rest currStar theta force"
| "CalculateNetForce_loop G (Some c # rest) currStar theta force =
     (case CalculateNetForce G (Some c) currStar theta of
        Inl e \<Rightarrow> Inl e
      | Inr f \<Rightarrow>
         CalculateNetForce_loop G rest currStar theta
           \<lparr>OrderedPair.x = OrderedPair.x force + OrderedPair.x f,
            y = OrderedPair.y force + OrderedPair.y f\<rparr>)"

section \<open>Integration\<close>

definition UpdateAcceleration :: "real \<Rightarrow> StarPtr \<Rightarrow> QuadTree \<Rightarrow> real \<Rightarrow> error + OrderedPair" where
  "UpdateAcceleration G s tree theta =
     (case CalculateNetForce G (root tree) s theta of
        Inl e \<Rightarrow> Inl e
      | Inr force \<Rightarrow>
         (case fdiv (OrderedPair.x force) (mass (pointee s)) of
            Inl e \<Rightarrow> Inl e
          | Inr ax \<Rightarrow>
             (case fdiv (OrderedPair.y force) (mass (pointee s)) of
                Inl e \<Rightarrow> Inl e
              | Inr ay \<Rightarrow> Inr \<lparr>OrderedPair.x = ax, y = ay\<rparr>)))"

definition UpdateVelocity :: "StarPtr \<Rightarrow> OrderedPair \<Rightarrow> real \<Rightarrow> OrderedPair" where
  "UpdateVelocity s oldAcceleration time =
     \<lparr>OrderedPair.x = OrderedPair.x (velocity (pointee s))
        + 0.5 * (OrderedPair.x (acceleration (pointee s)) + OrderedPair.x oldAcceleration) * time,
      y = OrderedPair.y (velocity (pointee s))
        + 0.5 * (OrderedPair.y (acceleration (pointee s)) + OrderedPair.y oldAcceleration) * time\<rparr>"

definition UpdatePosition :: "StarPtr \<Rightarrow> OrderedPair \<Rightarrow> OrderedPair \<Rightarrow> real \<Rightarrow> OrderedPair" where
  "UpdatePosition s oldAcceleration oldVelocity time =
     \<lparr>OrderedPair.x = OrderedPair.x (position (pointee s)) + OrderedPair.x oldVelocity * time
        + 0.5 * OrderedPair.x oldAcceleration * time * time,
      y = OrderedPair.y (position (pointee s)) + OrderedPair.y oldVelocity * time
        + 0.5 * OrderedPair.y oldAcceleration * time * time\<rparr>"

text \<open>The loop of \<^verbatim>\<open>CopyUniverse\<close>: every star is allocated anew, field by field.\<close>

fun CopyUniverse_loop :: "StarPtr list \<Rightarrow> nat \<Rightarrow> StarPtr list \<times> nat" where
  "CopyUniverse_loop [] h = ([], h)"
| "CopyUniverse_loop (s # ss) h =
     (let copy_s =
        \<lparr>addr = h,
         pointee =
           \<lparr>position = \<lparr>OrderedPair.x = OrderedPair.x (position (pointee s)),
                         y = OrderedPair.y (position (pointee s))\<rparr>,
            velocity = \<lparr>OrderedPair.x = OrderedPair.x (velocity (pointee s)),
                         y = OrderedPair.y (velocity (pointee s))\<rparr>,
            acceleration = \<lparr>OrderedPair.x = OrderedPair.x (acceleration (pointee s)),
                             y = OrderedPair.y (acceleration (pointee s))\<rparr>,
            mass = mass (pointee s),
            radius = radius (pointee s),
            red = red (pointee s),
            green = green (pointee s),
            blue = blue (pointee s)\<rparr>\<rparr>
      in case CopyUniverse_loop ss (Suc h) of (ss', h') \<Rightarrow> (copy_s # ss', h'))"

definition CopyUniverse :: "Universe \<Rightarrow> nat \<Rightarrow> Universe \<times> nat" where
  "CopyUniverse u h =
     (case CopyUniverse_loop (stars u) h of
        (ss, h') \<Rightarrow> (\<lparr>Universe.width = Universe.width u, stars = ss\<rparr>, h'))"

text \<open>
  One iteration of the loop of \<^verbatim>\<open>UpdateUniverse\<close>. \<^verbatim>\<open>b\<close> and \<^verbatim>\<open>newUniverse.stars[i]\<close>
  are the same pointer, so the three assignments update one star object in turn:
  \<open>integrateStar\<close> is these assignments, given the value \<open>a\<close> returned by
  \<^verbatim>\<open>UpdateAcceleration\<close> (which reads the star and writes nothing).
\<close>

definition integrateStar :: "StarPtr \<Rightarrow> OrderedPair \<Rightarrow> real \<Rightarrow> StarPtr" where
  "integrateStar b a time =
     (let oldAcceleration = acceleration (pointee b);
          oldVelocity = velocity (pointee b);
          b1 = b\<lparr>pointee := (pointee b)\<lparr>acceleration := a\<rparr>\<rparr>;
          b2 = b1\<lparr>pointee := (pointee b1)\<lparr>velocity := UpdateVelocity b1 oldAcceleration time\<rparr>\<rparr>;
          b3 = b2\<lparr>pointee := (pointee b2)
                  \<lparr>position := UpdatePosition b2 oldAcceleration oldVelocity time\<rparr>\<rparr>
      in b3)"

definition updateStar :: "real \<Rightarrow> StarPtr \<Rightarrow> real \<Rightarrow> QuadTree \<Rightarrow> real \<Rightarrow> error + StarPtr" where
  "updateStar G b time tree theta =
     (case UpdateAcceleration G b tree theta of
        Inl e \<Rightarrow> Inl e
      | Inr a \<Rightarrow> Inr (integrateStar b a time))"

fun UpdateUniverse_loop ::
  "real \<Rightarrow> StarPtr list \<Rightarrow> real \<Rightarrow> QuadTree \<Rightarrow> real \<Rightarrow> error + StarPtr list"
where
  "UpdateUniverse_loop G [] time tree theta = Inr []"
| "UpdateUniverse_loop G (b # bs) time tree theta =
     (case updateStar G b time tree theta of
        Inl e \<Rightarrow> Inl e
      | Inr b' \<Rightarrow>
         (case UpdateUniverse_loop G bs time tree theta of
            Inl e \<Rightarrow> Inl e
          | Inr bs' \<Rightarrow> Inr (b' # bs')))"

definition UpdateUniverse ::
  "real \<Rightarrow> Universe \<Rightarrow> real \<Rightarrow> QuadTree \<Rightarrow> real \<Rightarrow> nat \<Rightarrow> error + Universe \<times> nat"
where
  "UpdateUniverse G currentUniverse time tree theta h =
     (case CopyUniverse currentUniverse h of
        (newUniverse, h') \<Rightarrow>
          (case UpdateUniverse_loop G (stars newUniverse) time tree theta of
             Inl e \<Rightarrow> Inl e
           | Inr ss \<Rightarrow> Inr (newUniverse\<lparr>stars := ss\<rparr>, h')))"

section \<open>Simulation driver\<close>

text \<open>
  The loop of \<^verbatim>\<open>BarnesHut\<close> for \<^verbatim>\<open>i\<close> up to \<^verbatim>\<open>numGens\<close>. \<^verbatim>\<open>timePoints\<close> is the slice made
  with \<^verbatim>\<open>numGens + 1\<close> \<^verbatim>\<open>nil\<close> entries; \<open>n\<close> is its length.
\<close>

function BarnesHut_loop ::
  "real \<Rightarrow> nat \<Rightarrow> nat \<Rightarrow> Universe option list \<Rightarrow> real \<Rightarrow> real \<Rightarrow> nat \<Rightarrow>
     (error + Universe option list \<times> nat) option"
where
  "BarnesHut_loop G i n timePoints time theta h =
     (if i < n then
        (if i - 1 \<ge> length timePoints then Some (Inl IndexOutOfRange)
         else case timePoints ! (i - 1) of
                None \<Rightarrow> Some (Inl NilPointerDereference)
              | Some currentUniverse \<Rightarrow>
                 Option.bind (GenerateQuadTree currentUniverse h) (\<lambda>r.
                   case r of
                     Inl e \<Rightarrow> Some (Inl e)
                   | Inr (tree, h1) \<Rightarrow>
                      (case UpdateUniverse G currentUniverse time tree theta h1 of
                         Inl e \<Rightarrow> Some (Inl e)
                       | Inr (newUniverse, h2) \<Rightarrow>
                          if i \<ge> length timePoints then Some (Inl IndexOutOfRange)
                          else BarnesHut_loop G (Suc i) n (timePoints[i := Some newUniverse])
                                 time theta h2)))
      else Some (Inr (timePoints, h)))"
  by pat_completeness auto
termination
  by (relation "measure (\<lambda>(G, i, n, timePoints, time, theta, h). n - i)") auto

declare BarnesHut_loop.simps [simp del]

definition BarnesHut ::
  "real \<Rightarrow> Universe \<Rightarrow> int \<Rightarrow> real \<Rightarrow> real \<Rightarrow> nat \<Rightarrow> (error + Universe option list \<times> nat) option"
where
  "BarnesHut G initialUniverse numGens time theta h =
     (if numGens + 1 < 0 then Some (Inl NegativeSliceLength)
      else if numGens + 1 = 0 then Some (Inl IndexOutOfRange)
      else case CopyUniverse initialUniverse h of
             (u0, h0) \<Rightarrow>
               BarnesHut_loop G 1 (nat (numGens + 1))
                 ((replicate (nat (numGens + 1)) None)[0 := Some u0]) time theta h0)"

section \<open>Notions used to state the properties\<close>


text \<open>The stars held by the leaf nodes of a tree, in traversal order.\<close>

fun leaves :: "Node \<Rightarrow> StarPtr list" where
  "leaves (Node sec st ch) =
     (if IsLeaf_loop ch then (case st of None \<Rightarrow> [] | Some s \<Rightarrow> [s])
      else concat (map (\<lambda>c. case c of None \<Rightarrow> [] | Some n \<Rightarrow> leaves n) ch))"

















text \<open>All nodes of a tree, the root first.\<close>

fun subnodes :: "Node \<Rightarrow> Node list" where
  "subnodes (Node sec st ch) =
     Node sec st ch # concat (map (\<lambda>c. case c of None \<Rightarrow> [] | Some n \<Rightarrow> subnodes n) ch)"





section \<open>Concrete inputs\<close>

text \<open>A star at rest: address, position and mass are given, every other field is zero.\<close>

definition starAt :: "nat \<Rightarrow> real \<Rightarrow> real \<Rightarrow> real \<Rightarrow> StarPtr" where
  "starAt a px py m =
     \<lparr>addr = a,
      pointee = \<lparr>position = \<lparr>OrderedPair.x = px, y = py\<rparr>, velocity = zeroPair,
                 acceleration = zeroPair, mass = m, radius = 0, red = 0, green = 0, blue = 0\<rparr>\<rparr>"

text \<open>Two stars at rest in a domain of width 4, the quadtree built from them, and the
  snapshot after one step of size 2 with \<open>G = 1\<close>.\<close>

definition pairUniverse :: Universe where
  "pairUniverse = \<lparr>Universe.width = 4, stars = [starAt 0 1 1 1, starAt 1 3 1 4]\<rparr>"

definition pairTree :: QuadTree where
  "pairTree =
     \<lparr>root = Some (Node \<lparr>Quadrant.x = 0, y = 0, width = 4\<rparr> (Some (starAt 2 (13/5) 1 5))
        [Some (emptyNode \<lparr>Quadrant.x = 0, y = 2, width = 2\<rparr>),
         Some (emptyNode \<lparr>Quadrant.x = 2, y = 2, width = 2\<rparr>),
         Some (Node \<lparr>Quadrant.x = 0, y = 0, width = 2\<rparr> (Some (starAt 0 1 1 1)) []),
         Some (Node \<lparr>Quadrant.x = 2, y = 0, width = 2\<rparr> (Some (starAt 1 3 1 4)) [])])\<rparr>"

definition pairUniverse' :: Universe where
  "pairUniverse' =
     \<lparr>Universe.width = 4,
      stars =
        [\<lparr>addr = 3, pointee = \<lparr>position = \<lparr>OrderedPair.x = 1, y = 1\<rparr>,
                                velocity = \<lparr>OrderedPair.x = 1, y = 0\<rparr>,
                                acceleration = \<lparr>OrderedPair.x = 1, y = 0\<rparr>,
                                mass = 1, radius = 0, red = 0, green = 0, blue = 0\<rparr>\<rparr>,
         \<lparr>addr = 4, pointee = \<lparr>position = \<lparr>OrderedPair.x = 3, y = 1\<rparr>,
                                velocity = \<lparr>OrderedPair.x = - (1/4), y = 0\<rparr>,
                                acceleration = \<lparr>OrderedPair.x = - (1/4), y = 0\<rparr>,
                                mass = 4, radius = 0, red = 0, green = 0, blue = 0\<rparr>\<rparr>]\<rparr>"

text \<open>A tree that is one leaf.\<close>

definition leafTree :: QuadTree where
  "leafTree = \<lparr>root = Some (Node \<lparr>Quadrant.x = 0, y = 0, width = 4\<rparr> (Some (starAt 1 3 1 4)) [])\<rparr>"

text \<open>Three stars of mass 1 in a domain of width 16: two close to each other and one far
  from them; the node of the quadtree that holds the two close stars, and the root of the
  quadtree built from the snapshot.\<close>

definition farUniverse :: Universe where
  "farUniverse =
     \<lparr>Universe.width = 16, stars = [starAt 0 1 1 1, starAt 1 3 1 1, starAt 2 13 1 1]\<rparr>"

definition farNode :: Node where
  "farNode =
     Node \<lparr>Quadrant.x = 0, y = 0, width = 4\<rparr> (Some (starAt 3 2 1 2))
       [Some (emptyNode \<lparr>Quadrant.x = 0, y = 2, width = 2\<rparr>),
        Some (emptyNode \<lparr>Quadrant.x = 2, y = 2, width = 2\<rparr>),
        Some (Node \<lparr>Quadrant.x = 0, y = 0, width = 2\<rparr> (Some (starAt 0 1 1 1)) []),
        Some (Node \<lparr>Quadrant.x = 2, y = 0, width = 2\<rparr> (Some (starAt 1 3 1 1)) [])]"

definition farRoot :: Node where
  "farRoot =
     Node \<lparr>Quadrant.x = 0, y = 0, width = 16\<rparr> (Some (starAt 5 (17/3) 1 3))
       [Some (emptyNode \<lparr>Quadrant.x = 0, y = 8, width = 8\<rparr>),
        Some (emptyNode \<lparr>Quadrant.x = 8, y = 8, width = 8\<rparr>),
        Some (Node \<lparr>Quadrant.x = 0, y = 0, width = 8\<rparr> (Some (starAt 4 2 1 2))
          [Some (emptyNode \<lparr>Quadrant.x = 0, y = 4, width = 4\<rparr>),
           Some (emptyNode \<lparr>Quadrant.x = 4, y = 4, width = 4\<rparr>),
           Some farNode,
           Some (emptyNode \<lparr>Quadrant.x = 4, y = 0, width = 4\<rparr>)]),
        Some (Node \<lparr>Quadrant.x = 8, y = 0, width = 8\<rparr> (Some (starAt 2 13 1 1)) [])]"




section \<open>Properties of the force traversal\<close>

lemma fdiv_Inr: "b \<noteq> 0 \<Longrightarrow> fdiv a b = Inr (a / b)"
  by (simp add: fdiv_def)

lemma farCheck_noop: "farCheck node nodeStar currStar theta force = Inr force"
  by (simp add: farCheck_def Distance_def Let_def fdiv_def)

lemma CalculateNetForce_theta_aux:
  "CalculateNetForce G n s theta = CalculateNetForce G n s theta'"
  "CalculateNetForce_loop G ch s theta force = CalculateNetForce_loop G ch s theta' force"
  by (induction G n s theta and G ch s theta force
        rule: CalculateNetForce_CalculateNetForce_loop.induct)
     (simp_all add: farCheck_noop split: option.splits sum.splits)

lemma UpdateAcceleration_theta:
  "UpdateAcceleration G s tree theta = UpdateAcceleration G s tree theta'"
  by (simp add: UpdateAcceleration_def
        CalculateNetForce_theta_aux(1)[where theta=theta and theta'=theta'])

lemma UpdateUniverse_loop_theta:
  "UpdateUniverse_loop G bs dt tree theta = UpdateUniverse_loop G bs dt tree theta'"
  by (induction bs)
     (simp_all add: updateStar_def UpdateAcceleration_theta[where theta=theta and theta'=theta']
        split: sum.splits)

lemma UpdateUniverse_theta:
  "UpdateUniverse G u dt tree theta h = UpdateUniverse G u dt tree theta' h"
  by (simp add: UpdateUniverse_def UpdateUniverse_loop_theta[where theta=theta and theta'=theta'])

lemma BarnesHut_loop_theta:
  "BarnesHut_loop G i n tps dt theta h = BarnesHut_loop G i n tps dt theta' h"
proof (induction G i n tps dt theta h rule: BarnesHut_loop.induct)
  case (1 G i n timePoints time theta h)
  show ?case
    apply (subst BarnesHut_loop.simps)
    apply (subst (2) BarnesHut_loop.simps)
    apply (auto simp: UpdateUniverse_theta[where theta=theta and theta'=theta'] 1
                split: option.splits sum.splits prod.splits intro!: Option.bind_cong)
    done
qed

lemma leafForce_ok: "\<exists>f. leafForce G ns s force = Inr f"
  by (simp add: leafForce_def Distance_def Let_def fdiv_def)

lemma CalculateNetForce_ok_aux:
  "\<exists>f. CalculateNetForce G n s theta = Inr f"
  "\<exists>f. CalculateNetForce_loop G ch s theta force = Inr f"
  by (induction G n s theta and G ch s theta force
        rule: CalculateNetForce_CalculateNetForce_loop.induct)
     (auto simp add: farCheck_noop leafForce_ok split: option.splits sum.splits)

lemma ComputeForce_ok: "\<exists>f. ComputeForce G b b2 = Inr f"
  by (simp add: ComputeForce_def Distance_def Let_def fdiv_def)

lemma IsLeaf_loop_all_None:
  "IsLeaf_loop ch \<Longrightarrow> CalculateNetForce_loop G ch s theta force = Inr force"
  by (induction ch) (auto split: if_splits)

lemma leaf_coincident:
  assumes "snd (snd (Distance (position (pointee ns)) (position (pointee s)))) = 0"
    and "IsLeaf (Node sec (Some ns) ch)"
  shows "CalculateNetForce G (Some (Node sec (Some ns) ch)) s theta = Inr zeroPair"
  using assms
  by (auto simp: leafForce_def farCheck_noop IsLeaf_def IsLeaf_loop_all_None split: prod.splits)

text \<open>
  Claim C10. The opening-angle threshold has no effect: for every quadtree (any node, also
  \<^verbatim>\<open>nil\<close>), every target star and any two thresholds, \<^verbatim>\<open>CalculateNetForce\<close> returns the same
  net force, and so do \<^verbatim>\<open>UpdateAcceleration\<close>, \<^verbatim>\<open>UpdateUniverse\<close> and the whole run of
  \<^verbatim>\<open>BarnesHut\<close> (every downstream snapshot).
\<close>

theorem theta_noninterference:
  "CalculateNetForce G n s theta1 = CalculateNetForce G n s theta2 \<and>
   UpdateAcceleration G s tree theta1 = UpdateAcceleration G s tree theta2 \<and>
   UpdateUniverse G u dt tree theta1 h = UpdateUniverse G u dt tree theta2 h \<and>
   BarnesHut G u numGens dt theta1 h = BarnesHut G u numGens dt theta2 h"
  using CalculateNetForce_theta_aux(1)[where theta=theta1 and theta'=theta2]
    UpdateAcceleration_theta[where theta=theta1 and theta'=theta2]
    UpdateUniverse_theta[where theta=theta1 and theta'=theta2]
  by (simp add: BarnesHut_def BarnesHut_loop_theta[where theta=theta1 and theta'=theta2]
        split: prod.splits)

text \<open>
  Claim C8. Force computation never divides by zero. \<^verbatim>\<open>ComputeForce\<close> and
  \<^verbatim>\<open>CalculateNetForce\<close> always return a force (no \<open>DivisionByZero\<close> and no other fault,
  for every pair of stars, every tree and every target), and where the distance between
  the two positions is exactly zero the contribution is the zero vector: in
  \<^verbatim>\<open>ComputeForce\<close>, in the leaf branch of \<^verbatim>\<open>CalculateNetForce\<close> (the accumulated force
  is returned unchanged), and so for a leaf node as a whole.
\<close>

theorem no_division_by_zero:
  "(\<exists>f. ComputeForce G b b2 = Inr f) \<and>
   (\<exists>f. CalculateNetForce G n s theta = Inr f) \<and>
   (snd (snd (Distance (position (pointee b)) (position (pointee b2)))) = 0 \<longrightarrow>
      ComputeForce G b b2 = Inr zeroPair) \<and>
   (snd (snd (Distance (position (pointee ns)) (position (pointee s)))) = 0 \<longrightarrow>
      leafForce G ns s force = Inr force) \<and>
   (snd (snd (Distance (position (pointee ns)) (position (pointee s)))) = 0 \<longrightarrow>
      IsLeaf (Node sec (Some ns) ch) \<longrightarrow>
      CalculateNetForce G (Some (Node sec (Some ns) ch)) s theta = Inr zeroPair)"
  using ComputeForce_ok[of G b b2] CalculateNetForce_ok_aux(1)[of G n s theta]
    leaf_coincident[of ns s sec ch G theta]
  by (auto simp: ComputeForce_def leafForce_def split: prod.splits)

theorem no_division_by_zero_witness:
  "ComputeForce 1 (starAt 0 1 1 1) (starAt 1 1 1 2) = Inr zeroPair \<and>
   leafForce 1 (starAt 0 1 1 1) (starAt 1 1 1 2) zeroPair = Inr zeroPair \<and>
   CalculateNetForce 1
     (Some (Node \<lparr>Quadrant.x = 0, y = 0, width = 4\<rparr> (Some (starAt 0 1 1 1)) []))
     (starAt 1 1 1 2) (1/2) = Inr zeroPair"
  using no_division_by_zero[of 1 "starAt 0 1 1 1" "starAt 1 1 1 2" None "starAt 1 1 1 2" "1/2"
      "starAt 0 1 1 1" zeroPair "\<lparr>Quadrant.x = 0, y = 0, width = 4\<rparr>" "[]"]
  by (simp add: Distance_def starAt_def IsLeaf_def)

section \<open>Properties of the integrator\<close>

lemma CopyUniverse_loop_eq:
  "CopyUniverse_loop ss h = (ss', h') \<Longrightarrow>
     length ss' = length ss \<and> h' = h + length ss \<and>
     (\<forall>i<length ss. ss' ! i = \<lparr>addr = h + i, pointee = pointee (ss ! i)\<rparr>)"
proof (induction ss arbitrary: h ss' h')
  case Nil
  then show ?case by simp
next
  case (Cons s ss)
  obtain ts k where r: "CopyUniverse_loop ss (Suc h) = (ts, k)"
    by (cases "CopyUniverse_loop ss (Suc h)")
  from Cons.IH[OF r] Cons.prems r show ?case
    by (auto simp: Let_def nth_Cons split: nat.splits)
qed

lemma CopyUniverse_eq:
  "\<exists>ss. CopyUniverse u h =
          (\<lparr>Universe.width = Universe.width u, stars = ss\<rparr>, h + length (stars u)) \<and>
        length ss = length (stars u) \<and>
        (\<forall>i<length (stars u). ss ! i = \<lparr>addr = h + i, pointee = pointee (stars u ! i)\<rparr>)"
proof -
  obtain ss h' where r: "CopyUniverse_loop (stars u) h = (ss, h')"
    by (cases "CopyUniverse_loop (stars u) h")
  from CopyUniverse_loop_eq[OF r] r show ?thesis
    by (simp add: CopyUniverse_def)
qed

lemma UpdateUniverse_loop_Inr:
  "UpdateUniverse_loop G bs dt tree theta = Inr bs' \<Longrightarrow>
     length bs' = length bs \<and>
     (\<forall>i<length bs. \<exists>a. UpdateAcceleration G (bs ! i) tree theta = Inr a \<and>
                         bs' ! i = integrateStar (bs ! i) a dt)"
proof (induction bs arbitrary: bs')
  case Nil
  then show ?case by simp
next
  case (Cons b bs)
  from Cons.prems obtain b' cs where
    b': "updateStar G b dt tree theta = Inr b'" and
    cs: "UpdateUniverse_loop G bs dt tree theta = Inr cs" and
    eq: "bs' = b' # cs"
    by (auto split: sum.splits)
  from b' obtain a where a: "UpdateAcceleration G b tree theta = Inr a" "b' = integrateStar b a dt"
    by (auto simp: updateStar_def split: sum.splits)
  from Cons.IH[OF cs] a eq show ?case
    by (auto simp: nth_Cons split: nat.splits)
qed

lemma UpdateAcceleration_total:
  "mass (pointee s) \<noteq> 0 \<Longrightarrow> \<exists>a. UpdateAcceleration G s tree theta = Inr a"
  using CalculateNetForce_ok_aux(1)[of G "root tree" s theta]
  by (auto simp: UpdateAcceleration_def fdiv_def)

lemma UpdateUniverse_loop_total:
  "\<forall>b\<in>set bs. mass (pointee b) \<noteq> 0 \<Longrightarrow>
     \<exists>bs'. UpdateUniverse_loop G bs dt tree theta = Inr bs'"
proof (induction bs)
  case Nil
  then show ?case by simp
next
  case (Cons b bs)
  then obtain a where "UpdateAcceleration G b tree theta = Inr a"
    using UpdateAcceleration_total[of b G tree theta] by auto
  with Cons show ?case by (auto simp: updateStar_def)
qed

lemma integrateStar_fields:
  "addr (integrateStar b a dt) = addr b"
  "acceleration (pointee (integrateStar b a dt)) = a"
  "velocity (pointee (integrateStar b a dt)) =
     \<lparr>OrderedPair.x = OrderedPair.x (velocity (pointee b))
         + 0.5 * (OrderedPair.x a + OrderedPair.x (acceleration (pointee b))) * dt,
      y = OrderedPair.y (velocity (pointee b))
         + 0.5 * (OrderedPair.y a + OrderedPair.y (acceleration (pointee b))) * dt\<rparr>"
  "position (pointee (integrateStar b a dt)) =
     \<lparr>OrderedPair.x = OrderedPair.x (position (pointee b)) + OrderedPair.x (velocity (pointee b)) * dt
         + 0.5 * OrderedPair.x (acceleration (pointee b)) * dt * dt,
      y = OrderedPair.y (position (pointee b)) + OrderedPair.y (velocity (pointee b)) * dt
         + 0.5 * OrderedPair.y (acceleration (pointee b)) * dt * dt\<rparr>"
  "mass (pointee (integrateStar b a dt)) = mass (pointee b)"
  by (simp_all add: integrateStar_def UpdateVelocity_def UpdatePosition_def Let_def)

lemma UpdateUniverse_Inr:
  assumes "UpdateUniverse G u dt tree theta h = Inr (u', h')"
  shows "Universe.width u' = Universe.width u \<and> length (stars u') = length (stars u) \<and>
         h' = h + length (stars u) \<and>
         (\<forall>i<length (stars u).
            \<exists>a. UpdateAcceleration G \<lparr>addr = h + i, pointee = pointee (stars u ! i)\<rparr> tree theta
                   = Inr a \<and>
                stars u' ! i =
                  integrateStar \<lparr>addr = h + i, pointee = pointee (stars u ! i)\<rparr> a dt)"
proof -
  obtain ss where
    c: "CopyUniverse u h =
          (\<lparr>Universe.width = Universe.width u, stars = ss\<rparr>, h + length (stars u))"
    and len: "length ss = length (stars u)"
    and nth: "\<forall>i<length (stars u). ss ! i = \<lparr>addr = h + i, pointee = pointee (stars u ! i)\<rparr>"
    using CopyUniverse_eq[of u h] by auto
  from assms c obtain ts where ts: "UpdateUniverse_loop G ss dt tree theta = Inr ts"
    and u': "u' = \<lparr>Universe.width = Universe.width u, stars = ts\<rparr>"
    and h': "h' = h + length (stars u)"
    by (auto simp: UpdateUniverse_def split: sum.splits)
  from UpdateUniverse_loop_Inr[OF ts] len nth u' h' show ?thesis
    by auto
qed

lemma UpdateUniverse_total:
  assumes "\<forall>s\<in>set (stars u). mass (pointee s) \<noteq> 0"
  shows "\<exists>v. UpdateUniverse G u dt tree theta h = Inr (v, h + length (stars u))"
proof -
  obtain ss where
    c: "CopyUniverse u h =
          (\<lparr>Universe.width = Universe.width u, stars = ss\<rparr>, h + length (stars u))"
    and len: "length ss = length (stars u)"
    and nth: "\<forall>i<length (stars u). ss ! i = \<lparr>addr = h + i, pointee = pointee (stars u ! i)\<rparr>"
    using CopyUniverse_eq[of u h] by auto
  have "\<forall>b\<in>set ss. mass (pointee b) \<noteq> 0"
  proof
    fix b assume "b \<in> set ss"
    then obtain i where i: "i < length ss" "b = ss ! i" by (auto simp: in_set_conv_nth)
    with len nth have "pointee b = pointee (stars u ! i)" by simp
    moreover have "stars u ! i \<in> set (stars u)" using i len by simp
    ultimately show "mass (pointee b) \<noteq> 0" using assms by simp
  qed
  from UpdateUniverse_loop_total[OF this, of G dt tree theta] c show ?thesis
    by (auto simp: UpdateUniverse_def)
qed

lemmas eval_defs =
  starAt_def GenerateQuadTree_def InsertStar.simps emptyNode_def IsInsideUniverse_def
  Subdivide_def FindQuadrant_def childAt_def setChild_def fdiv_def Let_def zeroPair_def
  IsLeaf_def leafForce_def farCheck_noop Distance_def UpdateUniverse_def CopyUniverse_def
  updateStar_def integrateStar_def UpdateAcceleration_def UpdateVelocity_def UpdatePosition_def


lemma pairUniverse_step: "UpdateUniverse 1 pairUniverse 2 pairTree (1/2) 3 = Inr (pairUniverse', 5)"
  by (simp add: pairUniverse_def pairUniverse'_def pairTree_def eval_defs)

text \<open>
  Claim C3. One time step of \<^verbatim>\<open>UpdateUniverse\<close>. Whenever it returns the snapshot \<open>u'\<close>, every
  star \<open>i\<close> of it satisfies: its acceleration is what \<^verbatim>\<open>UpdateAcceleration\<close> returns on the
  tree for the copy (at address \<open>h + i\<close>) of the star's state before the step; its velocity
  is the old velocity plus 0.5 (new acceleration + old acceleration) dt; its position is
  the old position plus old velocity dt plus 0.5 old acceleration dt dt, with the velocity
  and acceleration before the step. It returns a snapshot whenever no star has mass zero.
\<close>

theorem UpdateUniverse_leapfrog:
  "(UpdateUniverse G u dt tree theta h = Inr (u', h') \<longrightarrow>
      Universe.width u' = Universe.width u \<and> length (stars u') = length (stars u) \<and>
      (\<forall>i<length (stars u).
         UpdateAcceleration G \<lparr>addr = h + i, pointee = pointee (stars u ! i)\<rparr> tree theta
           = Inr (acceleration (pointee (stars u' ! i))) \<and>
         velocity (pointee (stars u' ! i)) =
           \<lparr>OrderedPair.x = OrderedPair.x (velocity (pointee (stars u ! i)))
               + 0.5 * (OrderedPair.x (acceleration (pointee (stars u' ! i)))
                        + OrderedPair.x (acceleration (pointee (stars u ! i)))) * dt,
            y = OrderedPair.y (velocity (pointee (stars u ! i)))
               + 0.5 * (OrderedPair.y (acceleration (pointee (stars u' ! i)))
                        + OrderedPair.y (acceleration (pointee (stars u ! i)))) * dt\<rparr> \<and>
         position (pointee (stars u' ! i)) =
           \<lparr>OrderedPair.x = OrderedPair.x (position (pointee (stars u ! i)))
               + OrderedPair.x (velocity (pointee (stars u ! i))) * dt
               + 0.5 * OrderedPair.x (acceleration (pointee (stars u ! i))) * dt * dt,
            y = OrderedPair.y (position (pointee (stars u ! i)))
               + OrderedPair.y (velocity (pointee (stars u ! i))) * dt
               + 0.5 * OrderedPair.y (acceleration (pointee (stars u ! i))) * dt * dt\<rparr>)) \<and>
   ((\<forall>s\<in>set (stars u). mass (pointee s) \<noteq> 0) \<longrightarrow>
      (\<exists>v. UpdateUniverse G u dt tree theta h = Inr (v, h + length (stars u))))"
proof (intro conjI impI allI)
  assume r: "UpdateUniverse G u dt tree theta h = Inr (u', h')"
  note R = UpdateUniverse_Inr[OF r]
  show "Universe.width u' = Universe.width u" using R by simp
  show "length (stars u') = length (stars u)" using R by simp
  fix i assume i: "i < length (stars u)"
  from R i obtain a where
    a: "UpdateAcceleration G \<lparr>addr = h + i, pointee = pointee (stars u ! i)\<rparr> tree theta = Inr a"
       "stars u' ! i = integrateStar \<lparr>addr = h + i, pointee = pointee (stars u ! i)\<rparr> a dt"
    by blast
  show "UpdateAcceleration G \<lparr>addr = h + i, pointee = pointee (stars u ! i)\<rparr> tree theta
           = Inr (acceleration (pointee (stars u' ! i)))"
    using a by (simp add: integrateStar_fields)
  show "velocity (pointee (stars u' ! i)) =
           \<lparr>OrderedPair.x = OrderedPair.x (velocity (pointee (stars u ! i)))
               + 0.5 * (OrderedPair.x (acceleration (pointee (stars u' ! i)))
                        + OrderedPair.x (acceleration (pointee (stars u ! i)))) * dt,
            y = OrderedPair.y (velocity (pointee (stars u ! i)))
               + 0.5 * (OrderedPair.y (acceleration (pointee (stars u' ! i)))
                        + OrderedPair.y (acceleration (pointee (stars u ! i)))) * dt\<rparr>"
    using a by (simp add: integrateStar_fields)
  show "position (pointee (stars u' ! i)) =
           \<lparr>OrderedPair.x = OrderedPair.x (position (pointee (stars u ! i)))
               + OrderedPair.x (velocity (pointee (stars u ! i))) * dt
               + 0.5 * OrderedPair.x (acceleration (pointee (stars u ! i))) * dt * dt,
            y = OrderedPair.y (position (pointee (stars u ! i)))
               + OrderedPair.y (velocity (pointee (stars u ! i))) * dt
               + 0.5 * OrderedPair.y (acceleration (pointee (stars u ! i))) * dt * dt\<rparr>"
    using a by (simp add: integrateStar_fields)
next
  assume "\<forall>s\<in>set (stars u). mass (pointee s) \<noteq> 0"
  from UpdateUniverse_total[OF this]
  show "\<exists>v. UpdateUniverse G u dt tree theta h = Inr (v, h + length (stars u))" .
qed

theorem UpdateUniverse_leapfrog_witness:
  "UpdateUniverse 1 pairUniverse 2 pairTree (1/2) 3 = Inr (pairUniverse', 5) \<and>
   UpdateAcceleration 1 \<lparr>addr = 4, pointee = pointee (stars pairUniverse ! 1)\<rparr> pairTree (1/2)
     = Inr \<lparr>OrderedPair.x = - (1/4), y = 0\<rparr> \<and>
   velocity (pointee (stars pairUniverse' ! 1)) = \<lparr>OrderedPair.x = - (1/4), y = 0\<rparr> \<and>
   position (pointee (stars pairUniverse' ! 1)) = \<lparr>OrderedPair.x = 3, y = 1\<rparr> \<and>
   (\<exists>v. UpdateUniverse 1 pairUniverse 2 pairTree (1/2) 3 = Inr (v, 5))"
proof -
  have m: "\<forall>s\<in>set (stars pairUniverse). mass (pointee s) \<noteq> 0"
    by (simp add: pairUniverse_def starAt_def)
  have i: "(1::nat) < length (stars pairUniverse)"
    by (simp add: pairUniverse_def)
  note T = UpdateUniverse_leapfrog[of 1 pairUniverse 2 pairTree "1/2" 3 pairUniverse' 5]
  note A = T[THEN conjunct1, rule_format, OF pairUniverse_step]
  note B = A[THEN conjunct2, THEN conjunct2, rule_format, OF i]
  note C = T[THEN conjunct2, THEN mp, OF m]
  from B C pairUniverse_step show ?thesis
    by (simp add: pairUniverse_def pairUniverse'_def starAt_def zeroPair_def)
qed

text \<open>
  Claim C4 (as amended). A star whose velocity and acceleration before the step are both
  zero and for which \<^verbatim>\<open>UpdateAcceleration\<close> returns a nonzero \<open>a\<close>: one integration step of
  size \<open>dt\<close> stores \<open>a\<close>, gives the velocity 0.5 a dt, and leaves the position where it
  was, because the position is advanced with the velocity and acceleration of before the
  step, which are zero.
\<close>

theorem from_rest_step:
  assumes "velocity (pointee b) = zeroPair" and "acceleration (pointee b) = zeroPair"
    and "UpdateAcceleration G b tree theta = Inr a" and "a \<noteq> zeroPair"
  shows "\<exists>b'. updateStar G b dt tree theta = Inr b' \<and>
           acceleration (pointee b') = a \<and>
           velocity (pointee b') = \<lparr>OrderedPair.x = 0.5 * OrderedPair.x a * dt,
                                     y = 0.5 * OrderedPair.y a * dt\<rparr> \<and>
           position (pointee b') = position (pointee b)"
  using assms
  by (simp add: updateStar_def integrateStar_def UpdateVelocity_def UpdatePosition_def
        Let_def zeroPair_def)

theorem from_rest_step_witness:
  "\<exists>b'. updateStar 1 (starAt 5 1 1 1) 2 leafTree (1/2) = Inr b' \<and>
      acceleration (pointee b') = \<lparr>OrderedPair.x = 1, y = 0\<rparr> \<and>
      velocity (pointee b') = \<lparr>OrderedPair.x = 1, y = 0\<rparr> \<and>
      position (pointee b') = \<lparr>OrderedPair.x = 1, y = 1\<rparr>"
proof -
  have a: "UpdateAcceleration 1 (starAt 5 1 1 1) leafTree (1/2) = Inr \<lparr>OrderedPair.x = 1, y = 0\<rparr>"
    by (simp add: UpdateAcceleration_def leafTree_def starAt_def IsLeaf_def leafForce_def
          Distance_def fdiv_def zeroPair_def)
  have v: "velocity (pointee (starAt 5 1 1 1)) = zeroPair"
    and c: "acceleration (pointee (starAt 5 1 1 1)) = zeroPair"
    and n: "\<lparr>OrderedPair.x = 1, y = 0\<rparr> \<noteq> zeroPair"
    by (simp_all add: starAt_def zeroPair_def)
  from from_rest_step[OF v c a n, of 2] show ?thesis
    by (simp add: starAt_def)
qed

text \<open>
  The claim as stated, with the position displaced by 0.5 a dt dt, fails: a star at rest at
  (1, 1) that receives the acceleration (2, 0) stays at (1, 1) after a step of size 1, and
  is not at (2, 1).
\<close>

theorem from_rest_position_counterexample:
  "velocity (pointee (starAt 0 1 1 1)) = zeroPair \<and>
   acceleration (pointee (starAt 0 1 1 1)) = zeroPair \<and>
   \<lparr>OrderedPair.x = 2, y = 0\<rparr> \<noteq> zeroPair \<and>
   position (pointee (integrateStar (starAt 0 1 1 1) \<lparr>OrderedPair.x = 2, y = 0\<rparr> 1)) =
     \<lparr>OrderedPair.x = 1, y = 1\<rparr> \<and>
   position (pointee (integrateStar (starAt 0 1 1 1) \<lparr>OrderedPair.x = 2, y = 0\<rparr> 1)) \<noteq>
     \<lparr>OrderedPair.x = OrderedPair.x (position (pointee (starAt 0 1 1 1))) + 0.5 * 2 * 1 * 1,
      y = OrderedPair.y (position (pointee (starAt 0 1 1 1))) + 0.5 * 0 * 1 * 1\<rparr>"
  by (simp add: starAt_def zeroPair_def integrateStar_def UpdateVelocity_def UpdatePosition_def
        Let_def)

section \<open>Properties of tree construction\<close>







lemma leaves_leaf [simp]: "leaves (Node sec st []) = (case st of None \<Rightarrow> [] | Some s \<Rightarrow> [s])"
  by simp



declare leaves.simps [simp del]











































section \<open>The traversal against the direct sum\<close>

lemma sqrt_squares: "sqrt 16 = 4" "sqrt 100 = 10" "sqrt 121 = 11" "sqrt 144 = 12"
  by (rule real_sqrt_unique; simp)+

lemma subnodes_self: "n \<in> set (subnodes n)"
  by (cases n) simp



section \<open>Aggregates\<close>




section \<open>Termination of insertion\<close>




section \<open>Stars inside and outside the domain\<close>




section \<open>The simulation loop\<close>













section \<open>The opening-angle test\<close>

lemma farRoot_built: "GenerateQuadTree farUniverse 3 = Some (Inr (\<lparr>root = Some farRoot\<rparr>, 6))"
  by (simp add: farUniverse_def farRoot_def farNode_def eval_defs)

lemma farNode_force:
  "CalculateNetForce G (Some farNode) (starAt 2 13 1 1) theta
     = Inr \<lparr>OrderedPair.x = - (G / 144) - G / 100, y = 0\<rparr>"
  by (simp add: farNode_def eval_defs sqrt_squares)

text \<open>
  Claim C1 at a concrete input. In the tree \<^verbatim>\<open>GenerateQuadTree\<close> builds for \<open>farUniverse\<close>,
  the node \<open>farNode\<close> is internal, has width 4, and holds the aggregate of mass 2 at
  \<open>(2, 1)\<close>; the target star at \<open>(13, 1)\<close> is at distance 11 from it, and \<open>4 / 11 < 1 / 2\<close>.
  The force of the aggregate on the target is \<open>- 2 / 121\<close> along x, but with
  \<open>\<theta> = 1 / 2\<close> \<^verbatim>\<open>CalculateNetForce\<close> returns \<open>- 61 / 3600\<close> for the node and for the whole
  tree, the sum of the forces of the two stars below the node: the far branch adds
  nothing and the traversal descends into the children.
\<close>

theorem CalculateNetForce_omits_far_aggregate:
  "GenerateQuadTree farUniverse 3 = Some (Inr (\<lparr>root = Some farRoot\<rparr>, 6)) \<and>
   farNode \<in> set (subnodes farRoot) \<and>
   \<not> IsLeaf farNode \<and>
   star farNode = Some (starAt 3 2 1 2) \<and>
   Distance (position (pointee (starAt 3 2 1 2))) (position (pointee (starAt 2 13 1 1)))
     = (- 11, 0, 11) \<and>
   Quadrant.width (sector farNode) / 11 < 1 / 2 \<and>
   ComputeForce 1 (starAt 3 2 1 2) (starAt 2 13 1 1)
     = Inr \<lparr>OrderedPair.x = - (2 / 121), y = 0\<rparr> \<and>
   CalculateNetForce 1 (Some farNode) (starAt 2 13 1 1) (1 / 2)
     = Inr \<lparr>OrderedPair.x = - (61 / 3600), y = 0\<rparr> \<and>
   CalculateNetForce 1 (Some farRoot) (starAt 2 13 1 1) (1 / 2)
     = Inr \<lparr>OrderedPair.x = - (61 / 3600), y = 0\<rparr>"
proof -
  have "farNode \<in> set (subnodes farRoot)"
    by (simp add: farRoot_def emptyNode_def subnodes_self)
  moreover have "\<not> IsLeaf farNode" "star farNode = Some (starAt 3 2 1 2)"
    "Quadrant.width (sector farNode) / 11 < 1 / 2"
    by (simp_all add: farNode_def IsLeaf_def)
  moreover have "Distance (position (pointee (starAt 3 2 1 2))) (position (pointee (starAt 2 13 1 1)))
     = (- 11, 0, 11)"
    by (simp add: starAt_def Distance_def sqrt_squares)
  moreover have "ComputeForce 1 (starAt 3 2 1 2) (starAt 2 13 1 1)
     = Inr \<lparr>OrderedPair.x = - (2 / 121), y = 0\<rparr>"
    by (simp add: ComputeForce_def starAt_def Distance_def fdiv_def sqrt_squares)
  moreover have "CalculateNetForce 1 (Some farNode) (starAt 2 13 1 1) (1 / 2)
     = Inr \<lparr>OrderedPair.x = - (61 / 3600), y = 0\<rparr>"
    by (simp add: farNode_force)
  moreover have "CalculateNetForce 1 (Some farRoot) (starAt 2 13 1 1) (1 / 2)
     = Inr \<lparr>OrderedPair.x = - (61 / 3600), y = 0\<rparr>"
    by (simp add: farRoot_def farNode_def eval_defs sqrt_squares)
  ultimately show ?thesis using farRoot_built by simp
qed

end
